theory Spec2Isabelle
  imports Main
begin

section \<open>Python values used by the bridge\<close>

text \<open>
  The module \<^verbatim>\<open>kafka.py\<close> holds two classes. \<^verbatim>\<open>Publisher\<close> hands documents to a broker
  producer, \<^verbatim>\<open>RemoteDispatcher\<close> polls a broker consumer and forwards what it receives to
  the fan-out of its base class \<^verbatim>\<open>Dispatcher\<close>. The broker client, the codec, the base
  class and \<^verbatim>\<open>DocumentNames\<close> are imported: they are parameters of the embedding,
  what the two classes do with them is taken from the source.

  An exception is a value. \<open>OtherError c\<close> is an instance of any class \<open>c\<close> that is none
  of the four named ones (and no subclass of \<^verbatim>\<open>BufferError\<close>), for example
  \<^verbatim>\<open>KeyboardInterrupt\<close> or \<^verbatim>\<open>TypeError\<close>. A call whose return value the source drops
  yields \<open>exn option\<close>: \<open>None\<close> when it returned, \<open>Some e\<close> when it raised \<open>e\<close>.
\<close>

datatype exn = BufferError | AttributeError | RuntimeError | KeyError | OtherError string

text \<open>
  Documents are mutable Python objects, passed by reference. The store maps an address to
  the value of the whole object graph below it; \<open>next_addr\<close> is the first address not yet
  allocated. \<^verbatim>\<open>copy.deepcopy\<close> allocates a new object with the value of the original and
  shares nothing with it, so one cell for each graph is enough.
\<close>

type_synonym addr = nat

record 'd heap =
  objs :: "addr \<Rightarrow> 'd"
  next_addr :: addr

definition deepcopy :: "addr \<Rightarrow> 'd heap \<Rightarrow> addr \<times> 'd heap" where
  "deepcopy a h =
     (next_addr h,
      h\<lparr>objs := (objs h)(next_addr h := objs h a), next_addr := Suc (next_addr h)\<rparr>)"

section \<open>Publisher\<close>

text \<open>
  \<^verbatim>\<open>delivery_report\<close> is the module-level function of lines 9 to 16; it only prints. The
  value handed to \<^verbatim>\<open>produce\<close> is either a serialized message or, as in line 60, a
  reference to a document.
\<close>

datatype callback = delivery_report

datatype 'w pvalue = Payload 'w | Object addr

datatype 'w producer_call = Produce string "'w pvalue" callback | Poll nat | Flush

text \<open>
  The producer of the broker client, over a state \<open>'p\<close> of its own: what
  \<^verbatim>\<open>produce(topic, value, callback)\<close>, \<^verbatim>\<open>poll(timeout)\<close> and \<^verbatim>\<open>flush()\<close> answer and how
  they change that state. Timeouts are whole seconds.
\<close>

record ('p, 'w) producer_api =
  produce_op :: "'p \<Rightarrow> string \<Rightarrow> 'w pvalue \<Rightarrow> callback \<Rightarrow> exn option \<times> 'p"
  poll_op :: "'p \<Rightarrow> nat \<Rightarrow> exn option \<times> 'p"
  flush_op :: "'p \<Rightarrow> exn option \<times> 'p"

text \<open>
  The attributes of a \<^verbatim>\<open>Publisher\<close> are those set by \<^verbatim>\<open>__init__\<close> (lines 44 to 46).
  \<open>calls\<close> is a history variable: every call made on \<^verbatim>\<open>self.producer\<close>, oldest first.
\<close>

record ('p, 'd, 'w) Publisher =
  address :: string
  producer :: 'p
  serializer :: "string \<times> 'd \<Rightarrow> exn + 'w"
  calls :: "'w producer_call list"

definition producer_produce ::
  "('p, 'w) producer_api \<Rightarrow> ('p, 'd, 'w) Publisher \<Rightarrow> string \<Rightarrow> 'w pvalue \<Rightarrow> callback
     \<Rightarrow> exn option \<times> ('p, 'd, 'w) Publisher" where
  "producer_produce K P t v cb =
     (case produce_op K (producer P) t v cb of
        (r, p') \<Rightarrow> (r, P\<lparr>producer := p', calls := calls P @ [Produce t v cb]\<rparr>))"

definition producer_poll ::
  "('p, 'w) producer_api \<Rightarrow> ('p, 'd, 'w) Publisher \<Rightarrow> nat
     \<Rightarrow> exn option \<times> ('p, 'd, 'w) Publisher" where
  "producer_poll K P timeout =
     (case poll_op K (producer P) timeout of
        (r, p') \<Rightarrow> (r, P\<lparr>producer := p', calls := calls P @ [Poll timeout]\<rparr>))"

definition producer_flush ::
  "('p, 'w) producer_api \<Rightarrow> ('p, 'd, 'w) Publisher \<Rightarrow> exn option \<times> ('p, 'd, 'w) Publisher" where
  "producer_flush K P =
     (case flush_op K (producer P) of
        (r, p') \<Rightarrow> (r, P\<lparr>producer := p', calls := calls P @ [Flush]\<rparr>))"

text \<open>
  Attribute lookup on a \<^verbatim>\<open>Publisher\<close> instance finds the three instance attributes and the
  three methods of the class (and what every object inherits, none of it of this name).
  Line 61 evaluates \<^verbatim>\<open>self.delivery_report\<close>.
\<close>

definition Publisher_attributes :: "string list" where
  "Publisher_attributes =
     [''address'', ''producer'', ''_serializer'', ''__init__'', ''__call__'', ''close'']"

definition self_delivery_report :: "exn + callback" where
  "self_delivery_report =
     (if ''delivery_report'' \<in> set Publisher_attributes then Inr delivery_report
      else Inl AttributeError)"

text \<open>
  The body of \<^verbatim>\<open>try\<close> (lines 51 to 54): the serializer runs on the copy, then
  \<^verbatim>\<open>produce\<close>, then \<^verbatim>\<open>poll(0)\<close>; the first exception ends it.
\<close>

definition Publisher_call_try ::
  "('p, 'w) producer_api \<Rightarrow> ('p, 'd, 'w) Publisher \<Rightarrow> string \<Rightarrow> addr \<Rightarrow> 'd heap
     \<Rightarrow> exn option \<times> ('p, 'd, 'w) Publisher" where
  "Publisher_call_try K P name doc h =
     (case serializer P (name, objs h doc) of
        Inl e \<Rightarrow> (Some e, P)
      | Inr w \<Rightarrow>
          (case producer_produce K P ''bluesky-event'' (Payload w) delivery_report of
             (Some e, P1) \<Rightarrow> (Some e, P1)
           | (None, P1) \<Rightarrow> producer_poll K P1 0))"

text \<open>
  The handler (lines 57 to 61): \<^verbatim>\<open>poll(10)\<close>, then the arguments of the second
  \<^verbatim>\<open>produce\<close> are evaluated left to right, \<^verbatim>\<open>self.delivery_report\<close> last, and only
  then is \<^verbatim>\<open>produce\<close> called, with the document itself as its value.
\<close>

definition Publisher_call_except ::
  "('p, 'w) producer_api \<Rightarrow> ('p, 'd, 'w) Publisher \<Rightarrow> addr
     \<Rightarrow> exn option \<times> ('p, 'd, 'w) Publisher" where
  "Publisher_call_except K P doc =
     (case producer_poll K P 10 of
        (Some e, P1) \<Rightarrow> (Some e, P1)
      | (None, P1) \<Rightarrow>
          (case self_delivery_report of
             Inl e \<Rightarrow> (Some e, P1)
           | Inr cb \<Rightarrow> producer_produce K P1 ''bluesky-event'' (Object doc) cb))"

text \<open>Lines 50 to 61, on the copy: \<^verbatim>\<open>except BufferError\<close> catches that class only.\<close>

definition Publisher_call_copied ::
  "('p, 'w) producer_api \<Rightarrow> ('p, 'd, 'w) Publisher \<Rightarrow> string \<Rightarrow> addr \<Rightarrow> 'd heap
     \<Rightarrow> exn option \<times> ('p, 'd, 'w) Publisher" where
  "Publisher_call_copied K P name doc h =
     (case Publisher_call_try K P name doc h of
        (r, P1) \<Rightarrow> if r = Some BufferError then Publisher_call_except K P1 doc else (r, P1))"

text \<open>\<^verbatim>\<open>Publisher.__call__(name, doc)\<close>: line 49 rebinds \<^verbatim>\<open>doc\<close> to the copy.\<close>

definition Publisher_call ::
  "('p, 'w) producer_api \<Rightarrow> ('p, 'd, 'w) Publisher \<Rightarrow> string \<Rightarrow> addr \<Rightarrow> 'd heap
     \<Rightarrow> exn option \<times> ('p, 'd, 'w) Publisher \<times> 'd heap" where
  "Publisher_call K P name doc h =
     (case deepcopy doc h of
        (doc', h') \<Rightarrow>
          (case Publisher_call_copied K P name doc' h' of (r, P') \<Rightarrow> (r, P', h')))"

definition Publisher_close ::
  "('p, 'w) producer_api \<Rightarrow> ('p, 'd, 'w) Publisher \<Rightarrow> exn option \<times> ('p, 'd, 'w) Publisher" where
  "Publisher_close K P = producer_flush K P"

text \<open>
  Modelled from the spec: the broker producer (the class \<^verbatim>\<open>Producer\<close> of the broker client
  is not in the sources). It has a local outbound queue of bounded size; a submission to a
  full queue raises \<^verbatim>\<open>BufferError\<close> (the spec's QueueFullError); while the client is
  polled the queue drains; \<^verbatim>\<open>flush()\<close> blocks until every queued message has been
  delivered or has permanently failed. \<open>accepted\<close> says which messages the broker takes.
\<close>

record 'w Producer =
  queue :: "(string \<times> 'w pvalue) list"
  capacity :: nat
  drained_per_second :: nat
  accepted :: "string \<times> 'w pvalue \<Rightarrow> bool"
  delivered :: "(string \<times> 'w pvalue) list"
  failed :: "(string \<times> 'w pvalue) list"

definition settle :: "'w Producer \<Rightarrow> nat \<Rightarrow> 'w Producer" where
  "settle p n =
     p\<lparr>queue := drop n (queue p),
       delivered := delivered p @ filter (accepted p) (take n (queue p)),
       failed := failed p @ filter (\<lambda>m. \<not> accepted p m) (take n (queue p))\<rparr>"

definition Producer_produce ::
  "'w Producer \<Rightarrow> string \<Rightarrow> 'w pvalue \<Rightarrow> callback \<Rightarrow> exn option \<times> 'w Producer" where
  "Producer_produce p t v cb =
     (if capacity p \<le> length (queue p) then (Some BufferError, p)
      else (None, p\<lparr>queue := queue p @ [(t, v)]\<rparr>))"

definition Producer_poll :: "'w Producer \<Rightarrow> nat \<Rightarrow> exn option \<times> 'w Producer" where
  "Producer_poll p timeout = (None, settle p (drained_per_second p * timeout))"

definition Producer_flush :: "'w Producer \<Rightarrow> exn option \<times> 'w Producer" where
  "Producer_flush p = (None, settle p (length (queue p)))"

definition broker_producer :: "('w Producer, 'w) producer_api" where
  "broker_producer =
     \<lparr>produce_op = Producer_produce, poll_op = Producer_poll, flush_op = Producer_flush\<rparr>"

section \<open>RemoteDispatcher\<close>

text \<open>
  A message of the consumer: \<^verbatim>\<open>msg.error()\<close> is \<^verbatim>\<open>None\<close> or an error object (which is
  true in a condition), \<^verbatim>\<open>msg.topic()\<close> and \<^verbatim>\<open>msg.value()\<close> are its topic and payload.
\<close>

record 'w Message =
  msg_error :: "string option"
  msg_topic :: string
  msg_value :: 'w


text \<open>
  What the class calls on its collaborators: \<^verbatim>\<open>consumer.poll\<close> with its timeout and
  answer, \<^verbatim>\<open>self.process\<close> with its two arguments, \<^verbatim>\<open>consumer.close\<close>.
\<close>

datatype ('w, 'd) dispatcher_call =
  ConsumerPoll nat "exn + 'w Message option"
| Process string 'd
| ConsumerClose

text \<open>
  The collaborators: the consumer of the broker client over a state \<open>'c\<close> of its own
  (\<^verbatim>\<open>poll\<close> answers a message, \<^verbatim>\<open>None\<close> after the timeout, or raises, as it does on an
  interrupt), \<^verbatim>\<open>Dispatcher.process\<close> over the state \<open>'s\<close> of the base class, and the
  member names of the enumeration \<^verbatim>\<open>DocumentNames\<close>.
\<close>

record ('c, 'w, 'd, 's) dispatcher_api =
  consumer_poll_op :: "'c \<Rightarrow> nat \<Rightarrow> (exn + 'w Message option) \<times> 'c"
  consumer_close_op :: "'c \<Rightarrow> exn option \<times> 'c"
  process_op :: "string \<Rightarrow> 'd \<Rightarrow> 's \<Rightarrow> exn option \<times> 's"
  DocumentNames :: "string list"

text \<open>
  The attributes set by \<^verbatim>\<open>__init__\<close> (lines 90 to 102), \<open>dispatcher\<close> for what
  \<^verbatim>\<open>super().__init__()\<close> sets up. The deserializer answers the pair that line 115
  unpacks, or raises (also when its result is no pair). \<open>history\<close> is a history variable:
  every call made on the collaborators, oldest first.
\<close>

record ('c, 'w, 'd, 's) RemoteDispatcher =
  rd_address :: string
  deserializer :: "'w \<Rightarrow> exn + string \<times> 'd"
  consumer :: 'c
  closed :: bool
  dispatcher :: 's
  history :: "('w, 'd) dispatcher_call list"

definition consumer_poll ::
  "('c, 'w, 'd, 's) dispatcher_api \<Rightarrow> ('c, 'w, 'd, 's) RemoteDispatcher \<Rightarrow> nat
     \<Rightarrow> (exn + 'w Message option) \<times> ('c, 'w, 'd, 's) RemoteDispatcher" where
  "consumer_poll K D timeout =
     (case consumer_poll_op K (consumer D) timeout of
        (r, c') \<Rightarrow> (r, D\<lparr>consumer := c', history := history D @ [ConsumerPoll timeout r]\<rparr>))"

definition consumer_close ::
  "('c, 'w, 'd, 's) dispatcher_api \<Rightarrow> ('c, 'w, 'd, 's) RemoteDispatcher
     \<Rightarrow> exn option \<times> ('c, 'w, 'd, 's) RemoteDispatcher" where
  "consumer_close K D =
     (case consumer_close_op K (consumer D) of
        (r, c') \<Rightarrow> (r, D\<lparr>consumer := c', history := history D @ [ConsumerClose]\<rparr>))"

definition process ::
  "('c, 'w, 'd, 's) dispatcher_api \<Rightarrow> ('c, 'w, 'd, 's) RemoteDispatcher \<Rightarrow> string \<Rightarrow> 'd
     \<Rightarrow> exn option \<times> ('c, 'w, 'd, 's) RemoteDispatcher" where
  "process K D name doc =
     (case process_op K name doc (dispatcher D) of
        (r, s') \<Rightarrow> (r, D\<lparr>dispatcher := s', history := history D @ [Process name doc]\<rparr>))"

text \<open>\<^verbatim>\<open>DocumentNames[name]\<close>: the member of that name, \<^verbatim>\<open>KeyError\<close> if there is none.\<close>

definition DocumentNames_getitem ::
  "('c, 'w, 'd, 's) dispatcher_api \<Rightarrow> string \<Rightarrow> exn + string" where
  "DocumentNames_getitem K name =
     (if name \<in> set (DocumentNames K) then Inr name else Inl KeyError)"

text \<open>
  One pass of the body of \<^verbatim>\<open>while True\<close> (lines 106 to 117). The \<^verbatim>\<open>print\<close> calls write
  to the console only and are left out.
\<close>

definition poll_iteration ::
  "('c, 'w, 'd, 's) dispatcher_api \<Rightarrow> ('c, 'w, 'd, 's) RemoteDispatcher
     \<Rightarrow> exn option \<times> ('c, 'w, 'd, 's) RemoteDispatcher" where
  "poll_iteration K D =
     (case consumer_poll K D 1 of
        (Inl e, D1) \<Rightarrow> (Some e, D1)
      | (Inr None, D1) \<Rightarrow> (None, D1)
      | (Inr (Some msg), D1) \<Rightarrow>
          if msg_error msg \<noteq> None then (None, D1)
          else (case deserializer D1 (msg_value msg) of
                  Inl e \<Rightarrow> (Some e, D1)
                | Inr (name, doc) \<Rightarrow>
                    (case DocumentNames_getitem K name of
                       Inl e \<Rightarrow> (Some e, D1)
                     | Inr member \<Rightarrow> process K D1 member doc)))"

text \<open>
  \<^verbatim>\<open>RemoteDispatcher._poll\<close>: the loop has no \<^verbatim>\<open>break\<close> and no \<^verbatim>\<open>return\<close>, so it ends
  only by an exception; \<open>None\<close> is the loop that runs forever.
\<close>

partial_function (option) RemoteDispatcher_poll ::
  "('c, 'w, 'd, 's) dispatcher_api \<Rightarrow> ('c, 'w, 'd, 's) RemoteDispatcher
     \<Rightarrow> (exn \<times> ('c, 'w, 'd, 's) RemoteDispatcher) option" where
  "RemoteDispatcher_poll K D =
     (case poll_iteration K D of
        (Some e, D1) \<Rightarrow> Some (e, D1)
      | (None, D1) \<Rightarrow> RemoteDispatcher_poll K D1)"


definition RemoteDispatcher_stop ::
  "('c, 'w, 'd, 's) dispatcher_api \<Rightarrow> ('c, 'w, 'd, 's) RemoteDispatcher
     \<Rightarrow> exn option \<times> ('c, 'w, 'd, 's) RemoteDispatcher" where
  "RemoteDispatcher_stop K D =
     (case consumer_close K D of
        (Some e, D1) \<Rightarrow> (Some e, D1)
      | (None, D1) \<Rightarrow> (None, D1\<lparr>closed := True\<rparr>))"

text \<open>
  \<^verbatim>\<open>RemoteDispatcher.start\<close>: it never returns a value, it raises (\<open>Some\<close> of the exception
  and the state left behind) or runs forever (\<open>None\<close>). An exception of \<^verbatim>\<open>stop()\<close> inside
  the handler replaces the one being handled.
\<close>

definition RemoteDispatcher_start ::
  "('c, 'w, 'd, 's) dispatcher_api \<Rightarrow> ('c, 'w, 'd, 's) RemoteDispatcher
     \<Rightarrow> (exn \<times> ('c, 'w, 'd, 's) RemoteDispatcher) option" where
  "RemoteDispatcher_start K D =
     (if closed D then Some (RuntimeError, D)
      else (case RemoteDispatcher_poll K D of
              None \<Rightarrow> None
            | Some (e, D1) \<Rightarrow>
                (case RemoteDispatcher_stop K D1 of
                   (Some e', D2) \<Rightarrow> Some (e', D2)
                 | (None, D2) \<Rightarrow> Some (e, D2))))"




section \<open>Example objects\<close>

text \<open>
  Concrete collaborators on which the theorems below are run: a document
  \<^verbatim>\<open>{"uid": "abc"}\<close> at address 0, a codec that keeps the pair as it is, a producer
  whose queue of size one is full and drains one message per second, and an empty one.
\<close>

type_synonym document = "(string \<times> string) list"

definition example_heap :: "document heap" where
  "example_heap = \<lparr>objs = (\<lambda>a. if a = 0 then [(''uid'', ''abc'')] else []), next_addr = 1\<rparr>"

definition example_serializer :: "string \<times> document \<Rightarrow> exn + string \<times> document" where
  "example_serializer nd = Inr nd"

definition full_producer :: "(string \<times> document) Producer" where
  "full_producer =
     \<lparr>queue = [(''bluesky-event'', Payload (''start'', []))], capacity = 1,
      drained_per_second = 1, accepted = (\<lambda>m. True), delivered = [], failed = []\<rparr>"


definition example_publisher ::
  "(string \<times> document) Producer
     \<Rightarrow> ((string \<times> document) Producer, document, string \<times> document) Publisher" where
  "example_publisher p =
     \<lparr>address = ''localhost:9092'', producer = p, serializer = example_serializer, calls = []\<rparr>"

text \<open>
  For the dispatcher: a consumer that answers its polls from a script and is interrupted
  when the script has run out, a fan-out that records what it is given, four member names,
  and a codec that fails on the payload \<^verbatim>\<open>poison\<close>.
\<close>

type_synonym script = "(exn + string Message option) list"

definition scripted :: "(script, string, string, (string \<times> string) list) dispatcher_api" where
  "scripted =
     \<lparr>consumer_poll_op =
        (\<lambda>c timeout. case c of [] \<Rightarrow> (Inl (OtherError ''KeyboardInterrupt''), [])
                                | r # rs \<Rightarrow> (r, rs)),
      consumer_close_op = (\<lambda>c. (None, [])),
      process_op = (\<lambda>name doc s. (None, s @ [(name, doc)])),
      DocumentNames = [''start'', ''descriptor'', ''event'', ''stop'']\<rparr>"

definition example_deserializer :: "string \<Rightarrow> exn + string \<times> string" where
  "example_deserializer w =
     (if w = ''poison'' then Inl (OtherError ''UnpicklingError'') else Inr (w, ''doc''))"

definition message :: "string \<Rightarrow> exn + string Message option" where
  "message w = Inr (Some \<lparr>msg_error = None, msg_topic = ''bluesky-event'', msg_value = w\<rparr>)"


definition example_dispatcher ::
  "script \<Rightarrow> (script, string, string, (string \<times> string) list) RemoteDispatcher" where
  "example_dispatcher c =
     \<lparr>rd_address = ''localhost:9092'', deserializer = example_deserializer, consumer = c,
      closed = False, dispatcher = [], history = []\<rparr>"

section \<open>Publisher: what a call submits\<close>

lemma self_delivery_report_raises: "self_delivery_report = Inl AttributeError"
  by (simp add: self_delivery_report_def Publisher_attributes_def)

lemma deepcopy_value: "deepcopy doc h = (doc', h') \<Longrightarrow> objs h' doc' = objs h doc"
  by (auto simp: deepcopy_def)


lemma Publisher_call_except_eq:
  "Publisher_call_except K P doc =
     (case poll_op K (producer P) 10 of
        (r, p') \<Rightarrow>
          (Some (case r of None \<Rightarrow> AttributeError | Some e \<Rightarrow> e),
           P\<lparr>producer := p', calls := calls P @ [Poll 10]\<rparr>))"
  by (simp add: Publisher_call_except_def producer_poll_def self_delivery_report_raises
      split: prod.splits option.splits)

lemma Publisher_call_try_raise:
  assumes "serializer P (name, objs h doc) = Inr w"
    and "produce_op K (producer P) ''bluesky-event'' (Payload w) delivery_report = (Some e, p1)"
  shows "Publisher_call_try K P name doc h =
    (Some e, P\<lparr>producer := p1,
       calls := calls P @ [Produce ''bluesky-event'' (Payload w) delivery_report]\<rparr>)"
  using assms by (simp add: Publisher_call_try_def producer_produce_def)







text \<open>
  C10: when the first \<^verbatim>\<open>produce\<close> of a call raises \<^verbatim>\<open>BufferError\<close>, the handler waits
  in \<^verbatim>\<open>poll(10)\<close> and then evaluates \<^verbatim>\<open>self.delivery_report\<close>, which no \<^verbatim>\<open>Publisher\<close>
  has: once the wait has returned the call raises \<^verbatim>\<open>AttributeError\<close> (an exception of
  the wait itself would propagate instead), and in either case the calls made on the
  producer are the first submission and the wait, so \<^verbatim>\<open>produce\<close> is not called again.
\<close>

theorem retry_path_raises_AttributeError:
  assumes ser: "serializer P (name, objs h doc) = Inr w"
    and full: "produce_op K (producer P) ''bluesky-event'' (Payload w) delivery_report
                 = (Some BufferError, p1)"
  shows "\<exists>r p2. poll_op K p1 10 = (r, p2) \<and>
     Publisher_call K P name doc h =
       (Some (case r of None \<Rightarrow> AttributeError | Some e \<Rightarrow> e),
        P\<lparr>producer := p2,
          calls := calls P @ [Produce ''bluesky-event'' (Payload w) delivery_report, Poll 10]\<rparr>,
        snd (deepcopy doc h))"
proof -
  obtain r p2 where wait: "poll_op K p1 10 = (r, p2)"
    by (cases "poll_op K p1 10")
  obtain doc' h' where copy: "deepcopy doc h = (doc', h')"
    by (cases "deepcopy doc h")
  from ser deepcopy_value [OF copy] have ser': "serializer P (name, objs h' doc') = Inr w"
    by simp
  have tried: "Publisher_call_try K P name doc' h' =
    (Some BufferError, P\<lparr>producer := p1,
       calls := calls P @ [Produce ''bluesky-event'' (Payload w) delivery_report]\<rparr>)"
    using ser' full by (rule Publisher_call_try_raise)
  have "Publisher_call_copied K P name doc' h' =
    (Some (case r of None \<Rightarrow> AttributeError | Some e \<Rightarrow> e),
        P\<lparr>producer := p2,
          calls := calls P @ [Produce ''bluesky-event'' (Payload w) delivery_report, Poll 10]\<rparr>)"
    by (simp add: Publisher_call_copied_def tried Publisher_call_except_eq wait)
  with copy wait show ?thesis
    by (simp add: Publisher_call_def)
qed

theorem retry_path_raises_AttributeError_witness:
  "fst (Publisher_call broker_producer (example_publisher full_producer) ''stop'' 0 example_heap)
     = Some AttributeError
   \<and> calls (fst (snd (Publisher_call broker_producer (example_publisher full_producer)
        ''stop'' 0 example_heap)))
     = [Produce ''bluesky-event'' (Payload (''stop'', [(''uid'', ''abc'')])) delivery_report,
        Poll 10]"
proof -
  have ser: "serializer (example_publisher full_producer) (''stop'', objs example_heap 0)
      = Inr (''stop'', [(''uid'', ''abc'')])"
    by (simp add: example_publisher_def example_serializer_def example_heap_def)
  have full: "produce_op broker_producer (producer (example_publisher full_producer))
      ''bluesky-event'' (Payload (''stop'', [(''uid'', ''abc'')])) delivery_report
      = (Some BufferError, full_producer)"
    by (simp add: broker_producer_def Producer_produce_def example_publisher_def
        full_producer_def)
  have wait: "fst (poll_op broker_producer full_producer 10) = None"
    by (simp add: broker_producer_def Producer_poll_def)
  from retry_path_raises_AttributeError [OF ser full] wait show ?thesis
    by (auto simp: example_publisher_def)
qed

text \<open>
  C1, on a full queue that drains during the wait: the call raises \<^verbatim>\<open>AttributeError\<close>
  after one submission and \<^verbatim>\<open>poll(10)\<close>; the queue is empty by then, and the document
  has been neither queued nor delivered nor reported as failed.
\<close>

theorem full_queue_publish_is_not_retried:
  "Publisher_call broker_producer (example_publisher full_producer) ''stop'' 0 example_heap =
     (Some AttributeError,
      \<lparr>address = ''localhost:9092'',
       producer = full_producer\<lparr>queue := [],
         delivered := [(''bluesky-event'', Payload (''start'', []))]\<rparr>,
       serializer = example_serializer,
       calls = [Produce ''bluesky-event'' (Payload (''stop'', [(''uid'', ''abc'')]))
                  delivery_report, Poll 10]\<rparr>,
      snd (deepcopy 0 example_heap))"
  by (simp add: Publisher_call_def Publisher_call_copied_def Publisher_call_try_def
      Publisher_call_except_eq producer_produce_def producer_poll_def broker_producer_def
      Producer_produce_def Producer_poll_def settle_def example_publisher_def
      example_serializer_def full_producer_def deepcopy_def example_heap_def)




section \<open>Publisher: close\<close>

lemma settle_all:
  "settle p (length (queue p)) =
     p\<lparr>queue := [], delivered := delivered p @ filter (accepted p) (queue p),
       failed := failed p @ filter (\<lambda>m. \<not> accepted p m) (queue p)\<rparr>"
  by (simp add: settle_def)

lemma Publisher_close_broker:
  "Publisher_close broker_producer P =
     (None, P\<lparr>producer := settle (producer P) (length (queue (producer P))),
              calls := calls P @ [Flush]\<rparr>)"
  by (simp add: Publisher_close_def producer_flush_def broker_producer_def Producer_flush_def)

text \<open>
  C8, on the producer modelled from the spec: \<^verbatim>\<open>close()\<close> returns with the queue empty and
  each message that was queued settled, delivered if the broker accepts it and failed if
  not; a second \<^verbatim>\<open>close()\<close> returns too, leaves the producer as the first one left it,
  and the two calls made on the producer are two \<^verbatim>\<open>flush()\<close>, no submission.
\<close>

theorem close_drains_and_is_idempotent:
  assumes first: "Publisher_close broker_producer P = (r1, P1)"
    and second: "Publisher_close broker_producer P1 = (r2, P2)"
  shows "r1 = None \<and> queue (producer P1) = [] \<and>
    delivered (producer P1) = delivered (producer P) @ filter (accepted (producer P)) (queue (producer P)) \<and>
    failed (producer P1) =
      failed (producer P) @ filter (\<lambda>m. \<not> accepted (producer P) m) (queue (producer P)) \<and>
    r2 = None \<and> producer P2 = producer P1 \<and> calls P2 = calls P @ [Flush, Flush]"
proof -
  from first have r1: "r1 = None"
    and P1: "P1 = P\<lparr>producer := settle (producer P) (length (queue (producer P))),
              calls := calls P @ [Flush]\<rparr>"
    by (simp_all add: Publisher_close_broker)
  from P1 have q: "queue (producer P1) = []"
    and d: "delivered (producer P1) =
      delivered (producer P) @ filter (accepted (producer P)) (queue (producer P))"
    and f: "failed (producer P1) =
      failed (producer P) @ filter (\<lambda>m. \<not> accepted (producer P) m) (queue (producer P))"
    by (simp_all add: settle_all)
  from q have idle: "settle (producer P1) (length (queue (producer P1))) = producer P1"
    by (simp add: settle_def)
  from second have r2: "r2 = None"
    and P2: "P2 = P1\<lparr>producer := settle (producer P1) (length (queue (producer P1))),
              calls := calls P1 @ [Flush]\<rparr>"
    by (simp_all add: Publisher_close_broker)
  from P2 idle P1 have "producer P2 = producer P1" and "calls P2 = calls P @ [Flush, Flush]"
    by simp_all
  with r1 q d f r2 show ?thesis
    by simp
qed

theorem close_drains_and_is_idempotent_witness:
  "queue (producer (snd (Publisher_close broker_producer (example_publisher full_producer)))) = []
   \<and> delivered (producer (snd (Publisher_close broker_producer (example_publisher full_producer))))
       = [(''bluesky-event'', Payload (''start'', []))]
   \<and> fst (Publisher_close broker_producer
        (snd (Publisher_close broker_producer (example_publisher full_producer)))) = None
   \<and> calls (snd (Publisher_close broker_producer
        (snd (Publisher_close broker_producer (example_publisher full_producer)))))
       = [Flush, Flush]"
  using close_drains_and_is_idempotent
    [of "example_publisher full_producer"
        "fst (Publisher_close broker_producer (example_publisher full_producer))"
        "snd (Publisher_close broker_producer (example_publisher full_producer))"
        "fst (Publisher_close broker_producer
           (snd (Publisher_close broker_producer (example_publisher full_producer))))"
        "snd (Publisher_close broker_producer
           (snd (Publisher_close broker_producer (example_publisher full_producer))))"]
  by (simp add: example_publisher_def full_producer_def)

section \<open>RemoteDispatcher: the receive loop\<close>













section \<open>RemoteDispatcher: start and stop\<close>





text \<open>
  C4: \<^verbatim>\<open>start()\<close> on a stopped instance raises \<^verbatim>\<open>RuntimeError\<close> (the spec's
  IllegalStateError) and leaves the instance as it was: the history is unchanged, so the
  consumer is not polled and nothing is handed to \<^verbatim>\<open>process\<close>.
\<close>

theorem start_on_stopped_raises:
  assumes "closed D"
  shows "RemoteDispatcher_start K D = Some (RuntimeError, D)"
  using assms by (simp add: RemoteDispatcher_start_def)

theorem start_on_stopped_raises_witness:
  "RemoteDispatcher_start scripted ((example_dispatcher [message ''start''])\<lparr>closed := True\<rparr>) =
     Some (RuntimeError, (example_dispatcher [message ''start''])\<lparr>closed := True\<rparr>)
   \<and> history ((example_dispatcher [message ''start''])\<lparr>closed := True\<rparr>) = []"
  using start_on_stopped_raises
    [of "(example_dispatcher [message ''start''])\<lparr>closed := True\<rparr>" scripted]
  by (simp add: example_dispatcher_def)



end
